theory Spec2Isabelle
  imports Main "HOL-Library.Word"
begin

unbundle bit_operations_syntax

section \<open>Trace-id conversion: \<open>convertTraceID\<close>\<close>

text \<open>
  \<open>convertTraceID\<close> (package logger) calls two functions of Go's \<open>strconv\<close>:
  \<open>ParseUint(id, 16, 64)\<close> and \<open>FormatUint(v, 10)\<close>. Go strings are byte sequences,
  \<open>len\<close> counts bytes and \<open>id[16:]\<close> drops sixteen bytes: a \<open>string\<close> here.
  The unsigned 64-bit accumulator of \<open>ParseUint\<close> is a \<open>nat\<close>, with the two overflow
  tests of the library written out.
\<close>

datatype NumError = ErrSyntax | ErrRange

text \<open>\<open>lower(c) = c | ('x' - 'X')\<close> on the byte's code.\<close>

definition lower :: "nat \<Rightarrow> nat" where
  "lower c = c OR 32"

text \<open>The digit switch of \<open>ParseUint\<close>: \<open>'0'..'9'\<close>, then letters of either case.\<close>

definition digitOf :: "char \<Rightarrow> nat option" where
  "digitOf c =
     (let b = (of_char c :: nat) in
      if 48 \<le> b \<and> b \<le> 57 then Some (b - 48)
      else if 97 \<le> lower b \<and> lower b \<le> 122 then Some (lower b - 97 + 10)
      else None)"

text \<open>
  The loop of \<open>ParseUint\<close> over the bytes of the string: a byte that is no digit of the
  base is a syntax error; \<open>n \<ge> cutoff\<close> (\<open>cutoff = maxUint64 / base + 1\<close>) and a sum
  beyond \<open>maxVal = 2 ^ bitSize - 1\<close> are range errors.
\<close>

fun parseLoop :: "nat \<Rightarrow> nat \<Rightarrow> nat \<Rightarrow> string \<Rightarrow> NumError + nat" where
  "parseLoop base bitSize n [] = Inr n"
| "parseLoop base bitSize n (c # cs) =
     (case digitOf c of
        None \<Rightarrow> Inl ErrSyntax
      | Some d \<Rightarrow>
          if d \<ge> base then Inl ErrSyntax
          else if n \<ge> (2 ^ 64 - 1) div base + 1 then Inl ErrRange
          else let n1 = n * base + d in
               if n1 \<ge> 2 ^ 64 \<or> n1 > 2 ^ bitSize - 1 then Inl ErrRange
               else parseLoop base bitSize n1 cs)"

definition ParseUint :: "string \<Rightarrow> nat \<Rightarrow> nat \<Rightarrow> NumError + nat" where
  "ParseUint s base bitSize =
     (if s = [] then Inl ErrSyntax else parseLoop base bitSize 0 s)"

definition digits :: string where
  "digits = ''0123456789abcdefghijklmnopqrstuvwxyz''"

text \<open>\<open>FormatUint(v, 10)\<close>: the decimal digits of \<open>v\<close>, most significant first.\<close>

function FormatUint10 :: "nat \<Rightarrow> string" where
  "FormatUint10 n =
     (if n < 10 then [digits ! n]
      else FormatUint10 (n div 10) @ [digits ! (n mod 10)])"
  by pat_completeness auto
termination
  by (relation "measure id") auto

declare FormatUint10.simps [simp del]

definition convertTraceID :: "string \<Rightarrow> string" where
  "convertTraceID id0 =
     (if length id0 < 16 then []
      else let id1 = (if length id0 > 16 then drop 16 id0 else id0) in
           case ParseUint id1 16 64 of
             Inl err \<Rightarrow> []
           | Inr intValue \<Rightarrow> FormatUint10 intValue)"

subsection \<open>Reference reading of hexadecimal and decimal strings\<close>

text \<open>
  What the specification calls a hex string and its value, written independently of the
  parser: the two hexadecimal alphabets, and positional value.
\<close>

definition hexLower :: string where
  "hexLower = ''0123456789abcdef''"

definition hexUpper :: string where
  "hexUpper = ''0123456789ABCDEF''"

definition isHexChar :: "char \<Rightarrow> bool" where
  "isHexChar c = (c \<in> set hexLower \<or> c \<in> set hexUpper)"

text \<open>The value of a hexadecimal character is its position in the alphabet it is from.\<close>

definition position :: "string \<Rightarrow> char \<Rightarrow> nat" where
  "position alphabet c = length (takeWhile (\<lambda>x. x \<noteq> c) alphabet)"

definition hexDigitValue :: "char \<Rightarrow> nat" where
  "hexDigitValue c =
     (if c \<in> set hexLower then position hexLower c else position hexUpper c)"

definition hexValue :: "string \<Rightarrow> nat" where
  "hexValue s = foldl (\<lambda>n c. n * 16 + hexDigitValue c) 0 s"

definition decimalValue :: "string \<Rightarrow> nat" where
  "decimalValue s = foldl (\<lambda>n c. n * 10 + (of_char c - 48)) 0 s"

section \<open>The log/trace bridge: data\<close>

subsection \<open>Levels and fields of the logging library\<close>

text \<open>
  \<open>zapcore.Level\<close> is an \<open>int8\<close>; levels are compared as signed numbers (\<open>sint\<close>).
\<close>

type_synonym Level = "8 word"

definition DebugLevel :: Level where "DebugLevel = - 1"
definition InfoLevel :: Level where "InfoLevel = 0"
definition WarnLevel :: Level where "WarnLevel = 1"
definition ErrorLevel :: Level where "ErrorLevel = 2"
definition DPanicLevel :: Level where "DPanicLevel = 3"
definition PanicLevel :: Level where "PanicLevel = 4"
definition FatalLevel :: Level where "FatalLevel = 5"

text \<open>The tag of a \<open>zapcore.Field\<close>, one constructor per constant of the library.\<close>

datatype FieldType =
    UnknownType | ArrayMarshalerType | ObjectMarshalerType | BinaryType | BoolType
  | ByteStringType | Complex128Type | Complex64Type | DurationType | Float64Type
  | Float32Type | Int64Type | Int32Type | Int16Type | Int8Type | StringType | TimeType
  | TimeFullType | Uint64Type | Uint32Type | Uint16Type | Uint8Type | UintptrType
  | ReflectType | NamespaceType | StringerType | ErrorType | SkipType
  | InlineMarshalerType

text \<open>
  A value of type \<open>interface{}\<close>, by its dynamic type. \<open>INil\<close> is the nil interface.
  A value whose methods the bridge calls carries what the call returns: a
  \<open>fmt.Stringer\<close> its \<open>String()\<close>, a \<open>time.Time\<close> its \<open>UnixNano()\<close>, an \<open>error\<close> the
  name of its dynamic type and its \<open>Error()\<close>, a \<open>zapcore.ArrayMarshaler\<close> the strings
  that \<open>MarshalLogArray\<close> leaves in a \<open>bufferArrayEncoder\<close> and the error it returns
  (\<open>None\<close> for nil, otherwise the error's text). Floating-point components are bit
  patterns.
\<close>

datatype Iface =
    INil
  | IBool bool
  | IInt "64 word"
  | IString string
  | IBytes string
  | IComplex64 "32 word" "32 word"
  | IComplex128 "64 word" "64 word"
  | IStringer string
  | ITime "64 word"
  | IError string string
  | IArrayMarshaler "string list" "string option"
  | IObjectMarshaler
  | IOther nat

record Field =
  Key :: string
  Type :: FieldType
  Integer :: "64 word"
  String :: string
  Interface :: Iface

subsection \<open>Attributes and spans of the tracing library\<close>

datatype Value =
    BoolValue bool
  | Int64Value "64 word"
  | Float64Value "64 word"
  | StringValue string
  | StringSliceValue "string list"
  | OtherValue Iface

datatype KeyValue = KeyValue string Value

datatype Code = CodeUnset | CodeError | CodeOk

text \<open>
  The bridge never creates or ends a span: all it does to one is call \<open>AddEvent\<close> and
  \<open>SetStatus\<close>. A span is therefore its sampling flag, its span context and the calls
  made on it so far, oldest first.
\<close>

datatype SpanCall = AddEvent string "KeyValue list" | SetStatus Code string

record SpanContext =
  traceID :: "128 word"
  spanID :: "64 word"

record Span =
  IsRecording :: bool
  spanContext :: SpanContext
  calls :: "SpanCall list"

text \<open>A context carries a span or none; without one the library hands out its no-op span.\<close>

type_synonym Context = "Span option"

definition noopSpan :: Span where
  "noopSpan = \<lparr>IsRecording = False, spanContext = \<lparr>traceID = 0, spanID = 0\<rparr>, calls = []\<rparr>"

definition SpanFromContext :: "Context \<Rightarrow> Span" where
  "SpanFromContext ctx = (case ctx of Some span \<Rightarrow> span | None \<Rightarrow> noopSpan)"

definition span_AddEvent :: "Span \<Rightarrow> string \<Rightarrow> KeyValue list \<Rightarrow> Span" where
  "span_AddEvent span name attrs = span\<lparr>calls := calls span @ [AddEvent name attrs]\<rparr>"

definition span_SetStatus :: "Span \<Rightarrow> Code \<Rightarrow> string \<Rightarrow> Span" where
  "span_SetStatus span code description =
     span\<lparr>calls := calls span @ [SetStatus code description]\<rparr>"

definition HasTraceID :: "SpanContext \<Rightarrow> bool" where
  "HasTraceID sc = (traceID sc \<noteq> 0)"

text \<open>\<open>hex.EncodeToString\<close> of an id of \<open>k\<close> half-bytes, as \<open>TraceID.String\<close> uses it.\<close>

fun hexString :: "nat \<Rightarrow> nat \<Rightarrow> string" where
  "hexString 0 v = []"
| "hexString (Suc k) v = hexString k (v div 16) @ [digits ! (v mod 16)]"

definition TraceID_String :: "128 word \<Rightarrow> string" where
  "TraceID_String t = hexString 32 (unat t)"

definition SpanID_String :: "64 word \<Rightarrow> string" where
  "SpanID_String s = hexString 16 (unat s)"

definition logSeverityKey :: string where "logSeverityKey = ''log.severity''"
definition logMessageKey :: string where "logMessageKey = ''log.message''"
definition logTemplateKey :: string where "logTemplateKey = ''log.template''"

text \<open>The keys of \<open>semconv\<close> v1.10.0 that the bridge uses.\<close>

definition CodeFunctionKey :: string where "CodeFunctionKey = ''code.function''"
definition CodeFilepathKey :: string where "CodeFilepathKey = ''code.filepath''"
definition CodeLineNumberKey :: string where "CodeLineNumberKey = ''code.lineno''"
definition ExceptionStacktraceKey :: string where
  "ExceptionStacktraceKey = ''exception.stacktrace''"
definition ExceptionTypeKey :: string where "ExceptionTypeKey = ''exception.type''"
definition ExceptionMessageKey :: string where
  "ExceptionMessageKey = ''exception.message''"

subsection \<open>The underlying loggers\<close>

text \<open>
  \<open>*zap.Logger\<close> and \<open>*zap.SugaredLogger\<close> belong to the logging library. The bridge
  builds them with the library's constructors and hands them its calls; they are the
  terms over these constructors, and a call on one is a value (\<open>ZapCall\<close>).
\<close>

datatype ZapOption = zap_Fields "Field list" | zap_AddCallerSkip int | zap_Option nat

datatype ZapLogger = zap_NewNop | zap_Core nat | zap_WithOptions ZapLogger "ZapOption list"

datatype ZapSugared = zap_Sugar ZapLogger | zap_With ZapSugared "Iface list"

datatype ZapCall =
    ZapLog ZapLogger Level string "Field list"
  | ZapLogf ZapSugared Level string "Iface list"
  | ZapLogw ZapSugared Level string "Iface list"

subsection \<open>Slices\<close>

text \<open>
  \<open>extraFields\<close> is a Go slice: a pointer to a backing array, a length and a capacity.
  Copying a \<open>Logger\<close> copies these three words, not the array, so the arrays live in a
  store. An array is kept as the list of its \<open>cap\<close> cells.
\<close>

record Slice =
  arr :: nat
  len :: nat
  cap :: nat

record Heap =
  arrays :: "nat \<Rightarrow> Field list"
  fresh :: nat

definition nilSlice :: Slice where
  "nilSlice = \<lparr>arr = 0, len = 0, cap = 0\<rparr>"

definition emptyHeap :: Heap where
  "emptyHeap = \<lparr>arrays = (\<lambda>_. []), fresh = 1\<rparr>"

definition zeroField :: Field where
  "zeroField = \<lparr>Key = [], Type = UnknownType, Integer = 0, String = [], Interface = INil\<rparr>"

text \<open>The elements a slice shows: the first \<open>len\<close> cells of its array.\<close>

definition elems :: "Heap \<Rightarrow> Slice \<Rightarrow> Field list" where
  "elems h s = take (len s) (arrays h (arr s))"

subsection \<open>What the bridge takes from its libraries and from the runtime\<close>

record Frame =
  PC :: nat
  Function :: string
  File :: string
  Line :: "64 word"

text \<open>
  Functions of the libraries and of the Go runtime that the bridge calls and whose
  results it only passes on:
  \<^item> \<open>CapitalString\<close>: \<open>zapcore.Level.CapitalString\<close>;
  \<^item> \<open>FormatComplex\<close>: \<open>strconv.FormatComplex(c, 'E', -1, bitSize)\<close>;
  \<^item> \<open>Attribute\<close>: \<open>otelutil.Attribute(key, value)\<close>;
  \<^item> \<open>Sprintf\<close>: \<open>fmt.Sprintf(template, args...)\<close>, and \<open>SprintField\<close>: the \<open>%v\<close>
    rendering of a field;
  \<^item> \<open>Callers\<close>: the frame that \<open>runtime.Callers(skip, rpc)\<close> and
    \<open>runtime.CallersFrames(rpc).Next()\<close> find, \<open>None\<close> when \<open>Callers\<close> returns 0;
  \<^item> \<open>Stack\<close>: the text \<open>runtime.Stack\<close> writes for the current goroutine;
  \<^item> \<open>growslice\<close>: the capacity the runtime gives the new array when \<open>append\<close> has to
    allocate, from the old capacity and the length needed;
  \<^item> \<open>zapNewWith\<close>: the \<open>With(fs)\<close> calls that \<open>zap.New(core, opts...)\<close> makes on its
    core, in order.
\<close>

record Env =
  CapitalString :: "Level \<Rightarrow> string"
  FormatComplex :: "Iface \<Rightarrow> nat \<Rightarrow> string"
  Attribute :: "string \<Rightarrow> Iface \<Rightarrow> KeyValue"
  Sprintf :: "string \<Rightarrow> Iface list \<Rightarrow> string"
  SprintField :: "Field \<Rightarrow> string"
  Callers :: "int \<Rightarrow> Frame option"
  Stack :: string
  growslice :: "nat \<Rightarrow> nat \<Rightarrow> nat"
  zapNewWith :: "ZapOption list \<Rightarrow> Field list list"

text \<open>
  The built-in \<open>append(s, xs...)\<close>: when the capacity suffices the new elements are
  written into the array of \<open>s\<close>, after its \<open>len\<close> cells, and the result shares that
  array; otherwise a new array is allocated, the elements of \<open>s\<close> are copied and the new
  ones follow.
\<close>

definition append_slice :: "Env \<Rightarrow> Heap \<Rightarrow> Slice \<Rightarrow> Field list \<Rightarrow> Heap \<times> Slice" where
  "append_slice env h s xs =
     (let n = len s + length xs; a = arrays h (arr s) in
      if n \<le> cap s then
        (h\<lparr>arrays := (arrays h)(arr s := take (len s) a @ xs @ drop n a)\<rparr>,
         s\<lparr>len := n\<rparr>)
      else
        let c = growslice env (cap s) n; p = fresh h in
        (h\<lparr>arrays := (arrays h)(p := take (len s) a @ xs @ replicate (c - n) zeroField),
           fresh := Suc p\<rparr>,
         \<lparr>arr = p, len = n, cap = c\<rparr>))"

section \<open>The log/trace bridge: Logger\<close>

record Logger =
  zapLogger :: ZapLogger
  skipCaller :: ZapLogger
  withTraceID :: bool
  minLevel :: Level
  errorStatusLevel :: Level
  caller :: bool
  stackTrace :: bool
  extraFields :: Slice
  callerDepth :: int

text \<open>
  An \<open>Option\<close> is a \<open>func(l *Logger)\<close>: it updates the logger it is given, and through
  \<open>append\<close> the store.
\<close>

type_synonym Option = "Heap \<Rightarrow> Logger \<Rightarrow> Heap \<times> Logger"

fun applyOptions :: "Option list \<Rightarrow> Heap \<Rightarrow> Logger \<Rightarrow> Heap \<times> Logger" where
  "applyOptions [] h l = (h, l)"
| "applyOptions (opt # opts) h l = (case opt h l of (h', l') \<Rightarrow> applyOptions opts h' l')"

definition NewOtel :: "Heap \<Rightarrow> ZapLogger \<Rightarrow> Option list \<Rightarrow> Heap \<times> Logger" where
  "NewOtel h logger opts =
     applyOptions opts h
       \<lparr>zapLogger = logger,
        skipCaller = zap_WithOptions logger [zap_AddCallerSkip 1],
        withTraceID = False,
        minLevel = WarnLevel,
        errorStatusLevel = ErrorLevel,
        caller = True,
        stackTrace = False,
        extraFields = nilSlice,
        callerDepth = 0\<rparr>"

text \<open>\<open>fieldExtractorCore.With\<close> appends to the list it points to.\<close>

definition fieldExtractorCore_With :: "Field list \<Rightarrow> Field list \<Rightarrow> Field list" where
  "fieldExtractorCore_With extra fs = extra @ fs"

text \<open>
  \<open>WithOptions\<close>: \<open>clone := *l\<close> copies the record, the slice header with it; the fields
  collected by the extractor core are then appended to \<open>clone.extraFields\<close>.
\<close>

definition WithOptions :: "Env \<Rightarrow> Heap \<Rightarrow> Logger \<Rightarrow> ZapOption list \<Rightarrow> Heap \<times> Logger" where
  "WithOptions env h l opts =
     (let extra = foldl fieldExtractorCore_With [] (zapNewWith env opts);
          clone = l\<lparr>zapLogger := zap_WithOptions (zapLogger l) opts,
                    skipCaller := zap_WithOptions (skipCaller l) opts\<rparr>
      in case append_slice env h (extraFields clone) extra of
           (h', s) \<Rightarrow> (h', clone\<lparr>extraFields := s\<rparr>))"

definition Clone :: "Heap \<Rightarrow> Logger \<Rightarrow> Option list \<Rightarrow> Heap \<times> Logger" where
  "Clone h l opts = applyOptions opts h l"

subsection \<open>Options\<close>

definition WithMinLevel :: "Level \<Rightarrow> Option" where
  "WithMinLevel lvl = (\<lambda>h l. (h, l\<lparr>minLevel := lvl\<rparr>))"

definition WithErrorStatusLevel :: "Level \<Rightarrow> Option" where
  "WithErrorStatusLevel lvl = (\<lambda>h l. (h, l\<lparr>errorStatusLevel := lvl\<rparr>))"

definition WithCaller :: "bool \<Rightarrow> Option" where
  "WithCaller on = (\<lambda>h l. (h, l\<lparr>caller := on\<rparr>))"

definition WithCallerDepth :: "int \<Rightarrow> Option" where
  "WithCallerDepth depth = (\<lambda>h l. (h, l\<lparr>callerDepth := depth\<rparr>))"

definition WithStackTrace :: "bool \<Rightarrow> Option" where
  "WithStackTrace on = (\<lambda>h l. (h, l\<lparr>stackTrace := on\<rparr>))"

definition WithExtraFields :: "Env \<Rightarrow> Field list \<Rightarrow> Option" where
  "WithExtraFields env flds =
     (\<lambda>h l. case append_slice env h (extraFields l) flds of
               (h', s) \<Rightarrow> (h', l\<lparr>extraFields := s\<rparr>))"

definition WithTraceIDField :: "bool \<Rightarrow> Option" where
  "WithTraceIDField on = (\<lambda>h l. (h, l\<lparr>withTraceID := on\<rparr>))"

section \<open>The log/trace bridge: operations\<close>

subsection \<open>Field constructors of the logging library\<close>

text \<open>
  The constructors of \<open>zap\<close> that the bridge and its callers use. A number goes into the
  \<open>Integer\<close> slot through the conversion \<open>int64(val)\<close>: sign extension from a signed type
  (\<open>scast\<close>), zero extension from a narrower unsigned one (\<open>ucast\<close>), and the same 64
  bits from \<open>uint64\<close> and from \<open>uintptr\<close> (64-bit here).
\<close>

definition zap_Field :: "string \<Rightarrow> FieldType \<Rightarrow> 64 word \<Rightarrow> Field" where
  "zap_Field key t i = \<lparr>Key = key, Type = t, Integer = i, String = [], Interface = INil\<rparr>"

definition zap_String :: "string \<Rightarrow> string \<Rightarrow> Field" where
  "zap_String key val =
     \<lparr>Key = key, Type = StringType, Integer = 0, String = val, Interface = INil\<rparr>"

definition zap_Int8 :: "string \<Rightarrow> 8 word \<Rightarrow> Field" where
  "zap_Int8 key val = zap_Field key Int8Type (scast val)"

definition zap_Int16 :: "string \<Rightarrow> 16 word \<Rightarrow> Field" where
  "zap_Int16 key val = zap_Field key Int16Type (scast val)"

definition zap_Int32 :: "string \<Rightarrow> 32 word \<Rightarrow> Field" where
  "zap_Int32 key val = zap_Field key Int32Type (scast val)"

definition zap_Int64 :: "string \<Rightarrow> 64 word \<Rightarrow> Field" where
  "zap_Int64 key val = zap_Field key Int64Type val"

definition zap_Uint8 :: "string \<Rightarrow> 8 word \<Rightarrow> Field" where
  "zap_Uint8 key val = zap_Field key Uint8Type (ucast val)"

definition zap_Uint16 :: "string \<Rightarrow> 16 word \<Rightarrow> Field" where
  "zap_Uint16 key val = zap_Field key Uint16Type (ucast val)"

definition zap_Uint32 :: "string \<Rightarrow> 32 word \<Rightarrow> Field" where
  "zap_Uint32 key val = zap_Field key Uint32Type (ucast val)"

definition zap_Uint64 :: "string \<Rightarrow> 64 word \<Rightarrow> Field" where
  "zap_Uint64 key val = zap_Field key Uint64Type val"

definition zap_Uintptr :: "string \<Rightarrow> 64 word \<Rightarrow> Field" where
  "zap_Uintptr key val = zap_Field key UintptrType val"

subsection \<open>\<open>appendField\<close>\<close>

text \<open>
  A type assertion \<open>f.Interface.(T)\<close> without the \<open>ok\<close> result panics when the value is
  not a \<open>T\<close>: the result of \<open>appendField\<close> is the panic or the new attribute list.
\<close>

datatype panic = InterfaceConversion

definition int64Attr :: "KeyValue list \<Rightarrow> Field \<Rightarrow> panic + KeyValue list" where
  "int64Attr attrs f = Inr (attrs @ [KeyValue (Key f) (Int64Value (Integer f))])"

definition appendField :: "Env \<Rightarrow> KeyValue list \<Rightarrow> Field \<Rightarrow> panic + KeyValue list" where
  "appendField env attrs f =
     (case Type f of
        BoolType \<Rightarrow> Inr (attrs @ [KeyValue (Key f) (BoolValue (Integer f = 1))])
      | Int8Type \<Rightarrow> int64Attr attrs f
      | Int16Type \<Rightarrow> int64Attr attrs f
      | Int32Type \<Rightarrow> int64Attr attrs f
      | Int64Type \<Rightarrow> int64Attr attrs f
      | Uint32Type \<Rightarrow> int64Attr attrs f
      | Uint8Type \<Rightarrow> int64Attr attrs f
      | Uint16Type \<Rightarrow> int64Attr attrs f
      | Uint64Type \<Rightarrow> int64Attr attrs f
      | UintptrType \<Rightarrow> int64Attr attrs f
      | Float32Type \<Rightarrow> Inr (attrs @ [KeyValue (Key f) (Float64Value (Integer f))])
      | Float64Type \<Rightarrow> Inr (attrs @ [KeyValue (Key f) (Float64Value (Integer f))])
      | Complex64Type \<Rightarrow>
          (case Interface f of
             IComplex64 re im \<Rightarrow>
               Inr (attrs @ [KeyValue (Key f) (StringValue (FormatComplex env (Interface f) 64))])
           | _ \<Rightarrow> Inl InterfaceConversion)
      | Complex128Type \<Rightarrow>
          (case Interface f of
             IComplex128 re im \<Rightarrow>
               Inr (attrs @ [KeyValue (Key f) (StringValue (FormatComplex env (Interface f) 128))])
           | _ \<Rightarrow> Inl InterfaceConversion)
      | StringType \<Rightarrow> Inr (attrs @ [KeyValue (Key f) (StringValue (String f))])
      | BinaryType \<Rightarrow>
          (case Interface f of
             IBytes b \<Rightarrow> Inr (attrs @ [KeyValue (Key f) (StringValue b)])
           | _ \<Rightarrow> Inl InterfaceConversion)
      | ByteStringType \<Rightarrow>
          (case Interface f of
             IBytes b \<Rightarrow> Inr (attrs @ [KeyValue (Key f) (StringValue b)])
           | _ \<Rightarrow> Inl InterfaceConversion)
      | StringerType \<Rightarrow>
          (case Interface f of
             IStringer s \<Rightarrow> Inr (attrs @ [KeyValue (Key f) (StringValue s)])
           | _ \<Rightarrow> Inl InterfaceConversion)
      | DurationType \<Rightarrow> int64Attr attrs f
      | TimeType \<Rightarrow> int64Attr attrs f
      | TimeFullType \<Rightarrow>
          (case Interface f of
             ITime t \<Rightarrow> Inr (attrs @ [KeyValue (Key f) (Int64Value t)])
           | _ \<Rightarrow> Inl InterfaceConversion)
      | ErrorType \<Rightarrow>
          (case Interface f of
             IError typ msg \<Rightarrow>
               Inr (attrs @ [KeyValue ExceptionTypeKey (StringValue typ),
                             KeyValue ExceptionMessageKey (StringValue msg)])
           | _ \<Rightarrow> Inl InterfaceConversion)
      | ReflectType \<Rightarrow> Inr (attrs @ [Attribute env (Key f) (Interface f)])
      | SkipType \<Rightarrow> Inr attrs
      | ArrayMarshalerType \<Rightarrow>
          (case Interface f of
             IArrayMarshaler stringsSlice err \<Rightarrow>
               (case err of
                  Some e \<Rightarrow>
                    Inr (attrs @ [KeyValue (Key f @ ''_error'')
                                   (StringValue (''otelzap: unable to marshal array: '' @ e))])
                | None \<Rightarrow>
                    Inr (attrs @ [KeyValue (Key f) (StringSliceValue stringsSlice)]))
           | _ \<Rightarrow> Inl InterfaceConversion)
      | ObjectMarshalerType \<Rightarrow>
          Inr (attrs @ [KeyValue (Key f @ ''_error'')
                 (StringValue ''otelzap: zapcore.ObjectMarshalerType is not implemented'')])
      | _ \<Rightarrow>
          Inr (attrs @ [KeyValue (Key f @ ''_error'')
                 (StringValue (''otelzap: unknown field type: '' @ SprintField env f))]))"

text \<open>The loop of \<open>logFields\<close> over the fields; a namespace field is passed over.\<close>

fun appendFields :: "Env \<Rightarrow> KeyValue list \<Rightarrow> Field list \<Rightarrow> panic + KeyValue list" where
  "appendFields env attrs [] = Inr attrs"
| "appendFields env attrs (f # fs) =
     (if Type f = NamespaceType then appendFields env attrs fs
      else case appendField env attrs f of
             Inl p \<Rightarrow> Inl p
           | Inr attrs' \<Rightarrow> appendFields env attrs' fs)"

subsection \<open>\<open>Logger.log\<close>\<close>

definition levelString :: "Env \<Rightarrow> Level \<Rightarrow> string" where
  "levelString env lvl = (if lvl = DPanicLevel then ''PANIC'' else CapitalString env lvl)"

definition runtimeCaller :: "Env \<Rightarrow> int \<Rightarrow> string \<times> string \<times> 64 word \<times> bool" where
  "runtimeCaller env skip =
     (case Callers env (skip + 1) of
        None \<Rightarrow> ([], [], 0, False)
      | Some frame \<Rightarrow> (Function frame, File frame, Line frame, PC frame \<noteq> 0))"

definition callerAttrs :: "Env \<Rightarrow> Logger \<Rightarrow> KeyValue list" where
  "callerAttrs env l =
     (if caller l then
        (case runtimeCaller env (4 + callerDepth l) of
           (fn, file, line, ok) \<Rightarrow>
             if ok then
               (if fn \<noteq> [] then [KeyValue CodeFunctionKey (StringValue fn)] else [])
               @ (if file \<noteq> [] then
                    [KeyValue CodeFilepathKey (StringValue file),
                     KeyValue CodeLineNumberKey (Int64Value line)]
                  else [])
             else [])
      else [])"

definition stackAttrs :: "Env \<Rightarrow> Logger \<Rightarrow> KeyValue list" where
  "stackAttrs env l =
     (if stackTrace l then
        [KeyValue ExceptionStacktraceKey (StringValue (take 2048 (Stack env)))]
      else [])"

definition Logger_log ::
    "Env \<Rightarrow> Logger \<Rightarrow> Span \<Rightarrow> Level \<Rightarrow> string \<Rightarrow> KeyValue list \<Rightarrow> Span" where
  "Logger_log env l span lvl msg attrs =
     (let attrs1 = attrs @ [KeyValue logSeverityKey (StringValue (levelString env lvl))];
          attrs2 = attrs1 @ [KeyValue logMessageKey (StringValue msg)];
          attrs3 = attrs2 @ callerAttrs env l;
          attrs4 = attrs3 @ stackAttrs env l;
          span1 = span_AddEvent span ''log'' attrs4
      in if sint lvl \<ge> sint (errorStatusLevel l)
         then span_SetStatus span1 CodeError msg
         else span1)"

subsection \<open>The strict interface: \<open>logFields\<close>\<close>

definition traceFields :: "Span \<Rightarrow> Field list" where
  "traceFields span =
     (let traceID = TraceID_String (traceID (spanContext span));
          spanID = SpanID_String (spanID (spanContext span))
      in [zap_String ''traceId'' traceID,
          zap_String ''trace_id'' (convertTraceID traceID),
          zap_String ''spanId'' spanID,
          zap_String ''span_id'' (convertTraceID spanID)])"

text \<open>
  \<open>logFields\<close> returns the field list for the sink; what it does to the span of the
  context is returned with it. A panic of \<open>appendField\<close> ends the call.
\<close>

definition logFields ::
    "Env \<Rightarrow> Heap \<Rightarrow> Logger \<Rightarrow> Context \<Rightarrow> Level \<Rightarrow> string \<Rightarrow> Field list
       \<Rightarrow> panic + (Span \<times> Field list)" where
  "logFields env h l ctx lvl msg flds =
     (let flds1 = (if len (extraFields l) > 0 then flds @ elems h (extraFields l) else flds)
      in if sint lvl < sint (minLevel l) then Inr (SpanFromContext ctx, flds1)
         else
           let span = SpanFromContext ctx in
           if \<not> IsRecording span then Inr (span, flds1)
           else
             case appendFields env [] flds1 of
               Inl p \<Rightarrow> Inl p
             | Inr attrs \<Rightarrow>
                 let span' = Logger_log env l span lvl msg attrs in
                 if withTraceID l \<and> HasTraceID (spanContext span')
                 then Inr (span', flds1 @ traceFields span')
                 else Inr (span', flds1))"

subsection \<open>The sugared interface: \<open>logArgs\<close> and \<open>logKVs\<close>\<close>

record SugaredLogger =
  zapSugared :: ZapSugared
  skipCallerSugared :: ZapSugared
  desugared :: Logger

definition Sugar :: "Logger \<Rightarrow> SugaredLogger" where
  "Sugar l =
     \<lparr>zapSugared = zap_Sugar (zapLogger l),
      skipCallerSugared = zap_Sugar (skipCaller l),
      desugared = l\<rparr>"

definition logArgs ::
    "Env \<Rightarrow> SugaredLogger \<Rightarrow> Context \<Rightarrow> Level \<Rightarrow> string \<Rightarrow> Iface list \<Rightarrow> Span" where
  "logArgs env s ctx lvl template args =
     (if sint lvl < sint (minLevel (desugared s)) then SpanFromContext ctx
      else
        let span = SpanFromContext ctx in
        if \<not> IsRecording span then span
        else
          let attrs = [KeyValue logTemplateKey (StringValue template)]
          in Logger_log env (desugared s) span lvl (Sprintf env template args) attrs)"

text \<open>
  The loop \<open>for i := 0; i < len(kvs)-1; i += 2\<close>, with \<open>key, ok := kvs[i].(string)\<close>:
  both \<open>i\<close> and \<open>i + 1\<close> are within the list whenever the body runs.
\<close>

function kvLoop :: "Env \<Rightarrow> Iface list \<Rightarrow> nat \<Rightarrow> KeyValue list \<Rightarrow> KeyValue list" where
  "kvLoop env kvs i attrs =
     (if int i < int (length kvs) - 1 then
        kvLoop env kvs (i + 2)
          (case kvs ! i of
             IString key \<Rightarrow> attrs @ [Attribute env key (kvs ! (i + 1))]
           | _ \<Rightarrow> attrs)
      else attrs)"
  by pat_completeness auto
termination
  by (relation "measure (\<lambda>(env, kvs, i, attrs). length kvs - i)") auto

declare kvLoop.simps [simp del]

definition traceKVs :: "Span \<Rightarrow> Iface list" where
  "traceKVs span =
     (let traceID = TraceID_String (traceID (spanContext span));
          spanID = SpanID_String (spanID (spanContext span))
      in [IString ''traceId'', IString traceID,
          IString ''trace_id'', IString (convertTraceID traceID),
          IString ''spanId'', IString spanID,
          IString ''span_id'', IString (convertTraceID spanID)])"

definition logKVs ::
    "Env \<Rightarrow> SugaredLogger \<Rightarrow> Context \<Rightarrow> Level \<Rightarrow> string \<Rightarrow> Iface list
       \<Rightarrow> Span \<times> Iface list" where
  "logKVs env s ctx lvl msg kvs =
     (if sint lvl < sint (minLevel (desugared s)) then (SpanFromContext ctx, kvs)
      else
        let span = SpanFromContext ctx in
        if \<not> IsRecording span then (span, kvs)
        else
          let attrs = kvLoop env kvs 0 [];
              span' = Logger_log env (desugared s) span lvl msg attrs
          in if withTraceID (desugared s) \<and> HasTraceID (spanContext span')
             then (span', kvs @ traceKVs span')
             else (span', kvs))"

subsection \<open>The leveled methods\<close>

text \<open>
  Each family of methods is one definition with the level as an argument:
  \<open>DebugContext\<close>, \<open>InfoContext\<close>, ... \<open>FatalContext\<close> of \<open>Logger\<close> and \<open>Debug\<close> ...
  \<open>Fatal\<close> of \<open>LoggerWithCtx\<close> are \<open>Logger_Context\<close> at the seven levels (both pass
  the result of \<open>logFields\<close> to \<open>skipCaller\<close>); \<open>DebugwContext\<close> ... of \<open>SugaredLogger\<close>
  call the embedded sugared logger, \<open>Debugw\<close> ... of \<open>SugaredLoggerWithCtx\<close> call
  \<open>skipCaller\<close>, and likewise for the templated methods. The result is the span of the
  context after the call and the call made on the underlying logger.
\<close>

definition Logger_Context ::
    "Env \<Rightarrow> Heap \<Rightarrow> Logger \<Rightarrow> Context \<Rightarrow> Level \<Rightarrow> string \<Rightarrow> Field list
       \<Rightarrow> panic + (Span \<times> ZapCall)" where
  "Logger_Context env h l ctx lvl msg flds =
     (case logFields env h l ctx lvl msg flds of
        Inl p \<Rightarrow> Inl p
      | Inr (span, flds') \<Rightarrow> Inr (span, ZapLog (skipCaller l) lvl msg flds'))"

definition SugaredLogger_wContext ::
    "Env \<Rightarrow> SugaredLogger \<Rightarrow> Context \<Rightarrow> Level \<Rightarrow> string \<Rightarrow> Iface list
       \<Rightarrow> Span \<times> ZapCall" where
  "SugaredLogger_wContext env s ctx lvl msg keysAndValues =
     (case logKVs env s ctx lvl msg keysAndValues of
        (span, kvs') \<Rightarrow> (span, ZapLogw (zapSugared s) lvl msg kvs'))"

definition SugaredLoggerWithCtx_w ::
    "Env \<Rightarrow> SugaredLogger \<Rightarrow> Context \<Rightarrow> Level \<Rightarrow> string \<Rightarrow> Iface list
       \<Rightarrow> Span \<times> ZapCall" where
  "SugaredLoggerWithCtx_w env s ctx lvl msg keysAndValues =
     (case logKVs env s ctx lvl msg keysAndValues of
        (span, kvs') \<Rightarrow> (span, ZapLogw (skipCallerSugared s) lvl msg kvs'))"

definition SugaredLogger_fContext ::
    "Env \<Rightarrow> SugaredLogger \<Rightarrow> Context \<Rightarrow> Level \<Rightarrow> string \<Rightarrow> Iface list
       \<Rightarrow> Span \<times> ZapCall" where
  "SugaredLogger_fContext env s ctx lvl template args =
     (logArgs env s ctx lvl template args, ZapLogf (zapSugared s) lvl template args)"

definition SugaredLoggerWithCtx_f ::
    "Env \<Rightarrow> SugaredLogger \<Rightarrow> Context \<Rightarrow> Level \<Rightarrow> string \<Rightarrow> Iface list
       \<Rightarrow> Span \<times> ZapCall" where
  "SugaredLoggerWithCtx_f env s ctx lvl template args =
     (logArgs env s ctx lvl template args, ZapLogf (skipCallerSugared s) lvl template args)"

subsection \<open>The global logger\<close>

text \<open>
  \<open>_globalL\<close> and \<open>_globalS\<close>, read and written under \<open>_globalMu\<close>; the calls are taken
  one after the other. \<open>ReplaceGlobals\<close> returns the closure
  \<open>func() { ReplaceGlobals(prev) }\<close>, which drops the closure of its own call.
\<close>

record Globals =
  globalL :: Logger
  globalS :: SugaredLogger

definition L :: "Globals \<Rightarrow> Logger" where
  "L g = globalL g"

definition S :: "Globals \<Rightarrow> SugaredLogger" where
  "S g = globalS g"

definition swapGlobals :: "Globals \<Rightarrow> Logger \<Rightarrow> Globals \<times> Logger" where
  "swapGlobals g logger = (g\<lparr>globalL := logger, globalS := Sugar logger\<rparr>, globalL g)"

definition ReplaceGlobals :: "Globals \<Rightarrow> Logger \<Rightarrow> Globals \<times> (Globals \<Rightarrow> Globals)" where
  "ReplaceGlobals g logger =
     (case swapGlobals g logger of
        (g', prev) \<Rightarrow> (g', \<lambda>g2. fst (swapGlobals g2 prev)))"

text \<open>The globals at start: \<open>NewOtel(zap.NewNop())\<close> and its \<open>Sugar()\<close>.\<close>

definition initGlobals :: Globals where
  "initGlobals =
     (let l = snd (NewOtel emptyHeap zap_NewNop []) in \<lparr>globalL = l, globalS = Sugar l\<rparr>)"

section \<open>Notions of the specification\<close>

text \<open>
  The attributes of the \<open>log\<close> event, as the specification lists them: the attributes of
  the call, the severity, the message, the caller and the stack trace.
\<close>

definition logEventAttrs ::
    "Env \<Rightarrow> Logger \<Rightarrow> Level \<Rightarrow> string \<Rightarrow> KeyValue list \<Rightarrow> KeyValue list" where
  "logEventAttrs env l lvl msg attrs =
     attrs @ [KeyValue logSeverityKey (StringValue (levelString env lvl)),
              KeyValue logMessageKey (StringValue msg)]
       @ callerAttrs env l @ stackAttrs env l"

text \<open>
  The attributes of a sugared key/value call, pair by pair: a pair with a string key
  gives an attribute, a pair with another key gives none, and a last key without a
  value gives none.
\<close>

fun pairAttrs :: "Env \<Rightarrow> Iface list \<Rightarrow> KeyValue list" where
  "pairAttrs env (IString key # v # rest) = Attribute env key v # pairAttrs env rest"
| "pairAttrs env (k # v # rest) = pairAttrs env rest"
| "pairAttrs env [k] = []"
| "pairAttrs env [] = []"

text \<open>
  The \<open>Interface\<close> slot of a field holds a value of the type that its tag makes
  \<open>appendField\<close> assert (the tags without an assertion accept any).
\<close>

definition payloadOK :: "Field \<Rightarrow> bool" where
  "payloadOK f =
     (case Type f of
        Complex64Type \<Rightarrow> (case Interface f of IComplex64 re im \<Rightarrow> True | _ \<Rightarrow> False)
      | Complex128Type \<Rightarrow> (case Interface f of IComplex128 re im \<Rightarrow> True | _ \<Rightarrow> False)
      | BinaryType \<Rightarrow> (case Interface f of IBytes b \<Rightarrow> True | _ \<Rightarrow> False)
      | ByteStringType \<Rightarrow> (case Interface f of IBytes b \<Rightarrow> True | _ \<Rightarrow> False)
      | StringerType \<Rightarrow> (case Interface f of IStringer s \<Rightarrow> True | _ \<Rightarrow> False)
      | TimeFullType \<Rightarrow> (case Interface f of ITime t \<Rightarrow> True | _ \<Rightarrow> False)
      | ErrorType \<Rightarrow> (case Interface f of IError typ msg \<Rightarrow> True | _ \<Rightarrow> False)
      | ArrayMarshalerType \<Rightarrow>
          (case Interface f of IArrayMarshaler strs err \<Rightarrow> True | _ \<Rightarrow> False)
      | _ \<Rightarrow> True)"

definition integerTypes :: "FieldType list" where
  "integerTypes =
     [Int8Type, Int16Type, Int32Type, Int64Type,
      Uint8Type, Uint16Type, Uint32Type, Uint64Type, UintptrType]"

section \<open>An environment and loggers for the examples\<close>

definition formatInt :: "int \<Rightarrow> string" where
  "formatInt i = (if i < 0 then CHR ''-'' # FormatUint10 (nat (- i)) else FormatUint10 (nat i))"

text \<open>The table of \<open>zapcore.Level.CapitalString\<close>.\<close>

definition zap_CapitalString :: "Level \<Rightarrow> string" where
  "zap_CapitalString lvl =
     (if lvl = DebugLevel then ''DEBUG''
      else if lvl = InfoLevel then ''INFO''
      else if lvl = WarnLevel then ''WARN''
      else if lvl = ErrorLevel then ''ERROR''
      else if lvl = DPanicLevel then ''DPANIC''
      else if lvl = PanicLevel then ''PANIC''
      else if lvl = FatalLevel then ''FATAL''
      else ''LEVEL('' @ formatInt (sint lvl) @ '')'')"

text \<open>\<open>otelutil.Attribute\<close> on booleans, integers and strings.\<close>

definition otelutil_Attribute :: "string \<Rightarrow> Iface \<Rightarrow> KeyValue" where
  "otelutil_Attribute key v =
     (case v of
        IBool b \<Rightarrow> KeyValue key (BoolValue b)
      | IInt i \<Rightarrow> KeyValue key (Int64Value i)
      | IString s \<Rightarrow> KeyValue key (StringValue s)
      | _ \<Rightarrow> KeyValue key (OtherValue v))"

text \<open>
  The runtime's growth of a small slice: twice the old capacity, or the length needed
  when that is more.
\<close>

definition growDouble :: "nat \<Rightarrow> nat \<Rightarrow> nat" where
  "growDouble oldCap n = (if 2 * oldCap < n then n else 2 * oldCap)"

definition fieldsOptions :: "ZapOption list \<Rightarrow> Field list list" where
  "fieldsOptions opts =
     concat (map (\<lambda>opt. case opt of zap_Fields fs \<Rightarrow> [fs] | _ \<Rightarrow> []) opts)"

text \<open>
  An environment with no caller frame and an empty stack text, and with templates that
  have no verbs.
\<close>

definition exampleEnv :: Env where
  "exampleEnv =
     \<lparr>CapitalString = zap_CapitalString,
      FormatComplex = (\<lambda>c bitSize. []),
      Attribute = otelutil_Attribute,
      Sprintf = (\<lambda>template args. template),
      SprintField = Key,
      Callers = (\<lambda>skip. None),
      Stack = [],
      growslice = growDouble,
      zapNewWith = fieldsOptions\<rparr>"

definition recordingSpan :: Span where
  "recordingSpan =
     \<lparr>IsRecording = True, spanContext = \<lparr>traceID = 1, spanID = 1\<rparr>, calls = []\<rparr>"

text \<open>\<open>NewOtel(zap.NewNop())\<close>: the defaults.\<close>

definition defaultLogger :: Logger where
  "defaultLogger = snd (NewOtel emptyHeap zap_NewNop [])"

text \<open>A logger that escalates the status from a lower level than it records from.\<close>

definition statusBelowMinLogger :: Logger where
  "statusBelowMinLogger =
     snd (NewOtel emptyHeap zap_NewNop
            [WithMinLevel ErrorLevel, WithErrorStatusLevel WarnLevel])"

text \<open>\<open>zap.Stringer("user", nil)\<close>.\<close>

definition nilStringerField :: Field where
  "nilStringerField =
     \<lparr>Key = ''user'', Type = StringerType, Integer = 0, String = [], Interface = INil\<rparr>"

text \<open>
  A parent built with three \<open>WithExtraFields\<close> options of one field each, and two
  clones of it that each add one field.
\<close>

definition parentState :: "Heap \<times> Logger" where
  "parentState =
     NewOtel emptyHeap zap_NewNop
       [WithExtraFields exampleEnv [zap_String ''service'' ''user''],
        WithExtraFields exampleEnv [zap_String ''region'' ''eu''],
        WithExtraFields exampleEnv [zap_String ''version'' ''1'']]"

definition firstClone :: "Heap \<times> Logger" where
  "firstClone =
     Clone (fst parentState) (snd parentState)
       [WithExtraFields exampleEnv [zap_String ''tenant'' ''x'']]"

definition secondClone :: "Heap \<times> Logger" where
  "secondClone =
     Clone (fst firstClone) (snd parentState)
       [WithExtraFields exampleEnv [zap_String ''tenant'' ''y'']]"

section \<open>Properties of the trace-id conversion\<close>

lemma digitOf_hexLower:
  "list_all (\<lambda>c. digitOf c = Some (hexDigitValue c) \<and> hexDigitValue c < 16) hexLower"
  by (simp add: digitOf_def lower_def hexDigitValue_def position_def hexLower_def)

lemma digitOf_hexUpper:
  "list_all (\<lambda>c. digitOf c = Some (hexDigitValue c) \<and> hexDigitValue c < 16) hexUpper"
  by (simp add: digitOf_def lower_def hexDigitValue_def position_def hexLower_def
                hexUpper_def)

lemma digitOf_hex:
  assumes "isHexChar c"
  shows "digitOf c = Some (hexDigitValue c) \<and> hexDigitValue c < 16"
  using assms digitOf_hexLower digitOf_hexUpper
  unfolding isHexChar_def list_all_iff by blast

lemma parseLoop_hex:
  assumes "\<forall>c \<in> set s. isHexChar c" and "n < 16 ^ k" and "k + length s \<le> 16"
  shows "parseLoop 16 64 n s = Inr (foldl (\<lambda>n c. n * 16 + hexDigitValue c) n s)
         \<and> foldl (\<lambda>n c. n * 16 + hexDigitValue c) n s < 16 ^ (k + length s)"
  using assms
proof (induction s arbitrary: n k)
  case Nil
  then show ?case by simp
next
  case (Cons c cs)
  from Cons.prems have hex: "isHexChar c" and rest: "\<forall>c \<in> set cs. isHexChar c"
    by simp_all
  from digitOf_hex [OF hex]
  have d: "digitOf c = Some (hexDigitValue c)" and dlt: "hexDigitValue c < 16"
    by simp_all
  from Cons.prems have k15: "k \<le> 15" by simp
  have "(16::nat) ^ k \<le> 16 ^ 15"
    using k15 by (intro power_increasing) simp_all
  with Cons.prems(2) have nlt: "n < 16 ^ 15" by linarith
  have step: "n * 16 + hexDigitValue c < 16 ^ Suc k"
  proof -
    from Cons.prems(2) have "Suc n \<le> 16 ^ k" by simp
    then have "Suc n * 16 \<le> 16 ^ k * 16" by (rule mult_le_mono1)
    with dlt show ?thesis by simp
  qed
  have "(16::nat) ^ Suc k \<le> 16 ^ 16"
    using k15 by (intro power_increasing) simp_all
  with step have small: "n * 16 + hexDigitValue c < 16 ^ 16" by linarith
  from Cons.prems(3) have len: "Suc k + length cs \<le> 16" by simp
  from Cons.IH [OF rest step len]
  have ih: "parseLoop 16 64 (n * 16 + hexDigitValue c) cs =
              Inr (foldl (\<lambda>n c. n * 16 + hexDigitValue c) (n * 16 + hexDigitValue c) cs)"
    and bound: "foldl (\<lambda>n c. n * 16 + hexDigitValue c) (n * 16 + hexDigitValue c) cs
                  < 16 ^ (Suc k + length cs)"
    by simp_all
  from nlt have cutoff: "\<not> (n \<ge> (2 ^ 64 - 1) div 16 + 1)" by simp
  from small have fits: "\<not> (n * 16 + hexDigitValue c \<ge> 2 ^ 64
                             \<or> n * 16 + hexDigitValue c > 2 ^ 64 - 1)"
    by simp
  show ?case
    using d dlt cutoff fits ih bound by (simp add: Let_def)
qed

lemma ParseUint_hex16:
  assumes "\<forall>c \<in> set s. isHexChar c" and "length s = 16"
  shows "ParseUint s 16 64 = Inr (hexValue s)" and "hexValue s < 2 ^ 64"
proof -
  from assms(2) have ne: "s \<noteq> []" by auto
  from assms(2) have len: "0 + length s \<le> 16" by simp
  have z: "(0::nat) < 16 ^ 0" by simp
  from parseLoop_hex [OF assms(1) z len] assms(2) ne
  show "ParseUint s 16 64 = Inr (hexValue s)" and "hexValue s < 2 ^ 64"
    by (simp_all add: ParseUint_def hexValue_def)
qed

lemma digits_table: "list_all (\<lambda>d. of_char (digits ! d) = (48::nat) + d) [0..<10]"
  by (simp add: digits_def upt_rec)

lemma digits_decimal: "d < 10 \<Longrightarrow> of_char (digits ! d) = (48::nat) + d"
  using digits_table by (simp add: list_all_iff)

lemma decimalValue_snoc:
  "decimalValue (s @ [c]) = decimalValue s * 10 + (of_char c - 48)"
  by (simp add: decimalValue_def)

lemma decimalValue_FormatUint10: "decimalValue (FormatUint10 n) = n"
proof (induction n rule: FormatUint10.induct)
  case (1 n)
  show ?case
  proof (cases "n < 10")
    case True
    then show ?thesis
      by (simp add: FormatUint10.simps [of n] decimalValue_def digits_decimal)
  next
    case False
    then have ih: "decimalValue (FormatUint10 (n div 10)) = n div 10"
      using "1.IH" by simp
    have m: "n mod 10 < 10" by simp
    from False ih show ?thesis
      by (simp add: FormatUint10.simps [of n] decimalValue_snoc digits_decimal [OF m])
  qed
qed

text \<open>
  C4. \<open>convertTraceID\<close> maps every string shorter than 16 bytes to the empty string;
  for a 32-character hexadecimal trace id the sixteen characters from index 16 on parse
  as an unsigned 64-bit base-16 value (the parse cannot fail or overflow) and the result
  is the decimal rendering of that value; and whenever the parse of the retained part
  fails, the result is the empty string.
\<close>

theorem convertTraceID_low64_decimal:
  "(length tid < 16 \<longrightarrow> convertTraceID tid = [])
   \<and> (length tid = 32 \<and> (\<forall>c \<in> set tid. isHexChar c) \<longrightarrow>
        ParseUint (drop 16 tid) 16 64 = Inr (hexValue (drop 16 tid))
        \<and> hexValue (drop 16 tid) < 2 ^ 64
        \<and> convertTraceID tid = FormatUint10 (hexValue (drop 16 tid))
        \<and> decimalValue (convertTraceID tid) = hexValue (drop 16 tid))
   \<and> (16 \<le> length tid
        \<and> ParseUint (if 16 < length tid then drop 16 tid else tid) 16 64 = Inl e \<longrightarrow>
        convertTraceID tid = [])"
proof (intro conjI impI)
  assume "length tid < 16"
  then show "convertTraceID tid = []" by (simp add: convertTraceID_def)
next
  assume a: "length tid = 32 \<and> (\<forall>c \<in> set tid. isHexChar c)"
  then have hex: "\<forall>c \<in> set (drop 16 tid). isHexChar c"
    by (meson in_set_dropD)
  from a have len: "length (drop 16 tid) = 16" by simp
  from ParseUint_hex16 [OF hex len]
  have p: "ParseUint (drop 16 tid) 16 64 = Inr (hexValue (drop 16 tid))"
    and b: "hexValue (drop 16 tid) < 2 ^ 64" by simp_all
  from a p have c: "convertTraceID tid = FormatUint10 (hexValue (drop 16 tid))"
    by (simp add: convertTraceID_def)
  show "ParseUint (drop 16 tid) 16 64 = Inr (hexValue (drop 16 tid))" by (rule p)
  show "hexValue (drop 16 tid) < 2 ^ 64" by (rule b)
  show "convertTraceID tid = FormatUint10 (hexValue (drop 16 tid))" by (rule c)
  show "decimalValue (convertTraceID tid) = hexValue (drop 16 tid)"
    by (simp add: c decimalValue_FormatUint10)
next
  assume "16 \<le> length tid
          \<and> ParseUint (if 16 < length tid then drop 16 tid else tid) 16 64 = Inl e"
  then show "convertTraceID tid = []"
    by (simp add: convertTraceID_def)
qed

theorem convertTraceID_low64_decimal_witness:
  "convertTraceID ''4bf92f3577b34da'' = []
   \<and> convertTraceID ''4bf92f3577b34da6a3ce929d0e0e4736'' = ''11803532876627986230''
   \<and> convertTraceID ''4bf92f3577b34da6a3ce929d0e0e473g'' = []"
proof -
  have short: "length ''4bf92f3577b34da'' < 16" by simp
  have full: "length ''4bf92f3577b34da6a3ce929d0e0e4736'' = 32
              \<and> (\<forall>c \<in> set ''4bf92f3577b34da6a3ce929d0e0e4736''. isHexChar c)"
    by (simp add: isHexChar_def hexLower_def hexUpper_def)
  have bad: "16 \<le> length ''4bf92f3577b34da6a3ce929d0e0e473g''
             \<and> ParseUint (if 16 < length ''4bf92f3577b34da6a3ce929d0e0e473g''
                          then drop 16 ''4bf92f3577b34da6a3ce929d0e0e473g''
                          else ''4bf92f3577b34da6a3ce929d0e0e473g'') 16 64 = Inl ErrSyntax"
    by (simp add: ParseUint_def digitOf_def lower_def)
  have v: "FormatUint10 (hexValue (drop 16 ''4bf92f3577b34da6a3ce929d0e0e4736''))
             = ''11803532876627986230''"
    by (simp add: hexValue_def hexDigitValue_def position_def hexLower_def hexUpper_def
                  FormatUint10.simps digits_def)
  from convertTraceID_low64_decimal [of "''4bf92f3577b34da''"] short
  have 1: "convertTraceID ''4bf92f3577b34da'' = []" by blast
  from convertTraceID_low64_decimal [of "''4bf92f3577b34da6a3ce929d0e0e4736''"] full
  have "convertTraceID ''4bf92f3577b34da6a3ce929d0e0e4736''
          = FormatUint10 (hexValue (drop 16 ''4bf92f3577b34da6a3ce929d0e0e4736''))"
    by blast
  with v have 2: "convertTraceID ''4bf92f3577b34da6a3ce929d0e0e4736''
                    = ''11803532876627986230''" by simp
  from convertTraceID_low64_decimal
         [of "''4bf92f3577b34da6a3ce929d0e0e473g''" ErrSyntax] bad
  have 3: "convertTraceID ''4bf92f3577b34da6a3ce929d0e0e473g'' = []" by blast
  from 1 2 3 show ?thesis by blast
qed

end
